theory Spec2Isabelle
  imports Main "HOL-Library.Sublist"
begin

section \<open>Errors\<close>

text \<open>
  Every exception class the service declares or throws, with \<open>Error\<close> standing for the
  plain JavaScript \<open>Error\<close> and \<open>ZodError\<close> for the validation error of zod; the
  errors that the libraries raise may be of any class. A thrown value carries its class,
  its message and its \<open>cause\<close>; \<open>e instanceof C\<close> is \<open>error_class e = C\<close>, since every
  class of the service extends \<open>Error\<close> directly. Values thrown that are not \<open>Error\<close>
  objects are not modelled.
\<close>

datatype error_class =
    Error
  | ZodError
  | SMTPConfigError
  | SMTPSendError
  | EWSConfigError
  | EWSConnectionError
  | EWSSendError
  | MailSendError

datatype error = Thrown (error_class: error_class) (message: string) (cause: "error option")

section \<open>config/env.ts\<close>

text \<open>
  \<open>process.env\<close> is a partial map from variable names to strings. Strings are lists of
  8-bit characters, read as code units below 256.
\<close>

type_synonym env = "string \<Rightarrow> string option"

text \<open>
  What the configuration module takes from the JavaScript runtime and from zod:
  \<open>Number_integer raw\<close> is \<open>Some n\<close> when \<open>Number(raw)\<close> is the integer \<open>n\<close> (so that
  \<open>Number.isInteger\<close> holds) and \<open>None\<close> otherwise; \<open>URL_error v\<close> is the error of
  \<open>new URL(v)\<close>, if it throws; \<open>email_error a\<close> is the error of
  \<open>z.string().email().parse(a)\<close>, if it throws.
\<close>

record runtime =
  Number_integer :: "string \<Rightarrow> int option"
  URL_error :: "string \<Rightarrow> error option"
  email_error :: "string \<Rightarrow> error option"

record MailAuth =
  user :: string
  pass :: string

datatype MailTransport =
    UrlTransport (connectionUrl: string) (requireTLS: "bool option") (auth: "MailAuth option")
  | SmtpTransport (host: string) (port: int) (secure: bool) (requireTLS: "bool option")
      (auth: "MailAuth option")

record Sender =
  name :: string
  address :: string

record Timeouts =
  connection :: int
  greeting :: int

record MailConfig =
  apiKey :: string
  sender :: Sender
  transport :: MailTransport
  timeouts :: Timeouts

definition truthy :: "string list" where
  "truthy = [''1'', ''true'', ''yes'', ''y'', ''on'']"

definition falsy :: "string list" where
  "falsy = [''0'', ''false'', ''no'', ''n'', ''off'']"

text \<open>
  \<open>String.prototype.trim\<close> on code units below 256: tab, line feed, vertical tab, form
  feed, carriage return, space and no-break space are white space.
\<close>

definition is_white_space :: "char \<Rightarrow> bool" where
  "is_white_space c = ((of_char c :: nat) \<in> {9, 10, 11, 12, 13, 32, 160})"

definition trim :: "string \<Rightarrow> string" where
  "trim s = rev (dropWhile is_white_space (rev (dropWhile is_white_space s)))"

text \<open>
  \<open>String.prototype.toLowerCase\<close> on the ASCII letters. The other upper-case letters
  below 256 become letters outside ASCII, which no entry of \<open>truthy\<close> or \<open>falsy\<close> has.
\<close>

definition toLowerCase_char :: "char \<Rightarrow> char" where
  "toLowerCase_char c =
     (let n = (of_char c :: nat) in if 65 \<le> n \<and> n \<le> 90 then char_of (n + 32) else c)"

definition toLowerCase :: "string \<Rightarrow> string" where
  "toLowerCase s = map toLowerCase_char s"

definition optional :: "env \<Rightarrow> string \<Rightarrow> string option" where
  "optional e key =
     (case e key of
        None \<Rightarrow> None
      | Some v \<Rightarrow>
          if v = [] then None
          else (let trimmed = trim v in if length trimmed > 0 then Some trimmed else None))"

definition required :: "env \<Rightarrow> string \<Rightarrow> error + string" where
  "required e key =
     (case optional e key of
        None \<Rightarrow> Inl (Thrown Error (''Missing required environment variable '' @ key) None)
      | Some v \<Rightarrow> Inr v)"

definition optionalInteger :: "runtime \<Rightarrow> env \<Rightarrow> string \<Rightarrow> error + int option" where
  "optionalInteger rt e key =
     (case optional e key of
        None \<Rightarrow> Inr None
      | Some raw \<Rightarrow>
          (case Number_integer rt raw of
             None \<Rightarrow>
               Inl (Thrown Error
                     (''Expected '' @ key @ '' to be an integer, received '' @
                      [CHR 0x22] @ raw @ [CHR 0x22]) None)
           | Some parsed \<Rightarrow> Inr (Some parsed)))"

definition optionalBoolean :: "env \<Rightarrow> string \<Rightarrow> error + bool option" where
  "optionalBoolean e key =
     (case optional e key of
        None \<Rightarrow> Inr None
      | Some raw \<Rightarrow>
          (let normalized = toLowerCase raw in
           if normalized \<in> set truthy then Inr (Some True)
           else if normalized \<in> set falsy then Inr (Some False)
           else Inl (Thrown Error
                      (''Expected '' @ key @ '' to be a boolean-like value, received '' @
                       [CHR 0x22] @ raw @ [CHR 0x22]) None)))"

definition validateUrl :: "runtime \<Rightarrow> string \<Rightarrow> string \<Rightarrow> error + string" where
  "validateUrl rt v key =
     (case URL_error rt v of
        None \<Rightarrow> Inr v
      | Some err \<Rightarrow>
          Inl (Thrown Error (''Invalid '' @ key @ '' '' @ [CHR 0x22] @ v @ [CHR 0x22])
                (Some err)))"

text \<open>The nullish coalescing operator \<open>a ?? b\<close>.\<close>

definition nullish :: "'a option \<Rightarrow> 'a \<Rightarrow> 'a" where
  "nullish a b = (case a of None \<Rightarrow> b | Some v \<Rightarrow> v)"

text \<open>
  \<open>parseMailTransport\<close>. The reads of the environment come in the order of the source, so
  that the first one that throws decides the error; every string that \<open>optional\<close> returns
  is non-empty, which makes \<open>user && !password\<close> the test below.
\<close>

definition parseMailTransport :: "runtime \<Rightarrow> env \<Rightarrow> error + (MailTransport \<times> MailAuth option)" where
  "parseMailTransport rt e =
     (let smtpUrl = optional e ''SMTP_URL'';
          smtpHost = nullish (optional e ''SMTP_HOST'') ''smtp.gmail.com''
      in case optionalInteger rt e ''SMTP_PORT'' of
           Inl err \<Rightarrow> Inl err
         | Inr smtpPort \<Rightarrow>
      (case optionalBoolean e ''SMTP_SECURE'' of
           Inl err \<Rightarrow> Inl err
         | Inr smtpSecure \<Rightarrow>
      (case optionalBoolean e ''SMTP_REQUIRE_TLS'' of
           Inl err \<Rightarrow> Inl err
         | Inr smtpRequireTLS \<Rightarrow>
      (let explicitUser = optional e ''SMTP_USER'';
           gmailUser = optional e ''GMAIL_USER'';
           usr = (case explicitUser of None \<Rightarrow> gmailUser | Some u \<Rightarrow> Some u);
           explicitPassword = optional e ''SMTP_PASSWORD'';
           gmailPassword = optional e ''GMAIL_APP_PASSWORD'';
           password = (case explicitPassword of None \<Rightarrow> gmailPassword | Some p \<Rightarrow> Some p)
       in if usr \<noteq> None \<and> password = None then
            Inl (Thrown Error
                  ''SMTP_PASSWORD (or GMAIL_APP_PASSWORD) is required when SMTP_USER (or GMAIL_USER) is provided''
                  None)
          else
            (let au = (case (usr, password) of
                         (Some u, Some p) \<Rightarrow> Some \<lparr>user = u, pass = p\<rparr>
                       | _ \<Rightarrow> None)
             in case smtpUrl of
                  Some url \<Rightarrow>
                    (case validateUrl rt url ''SMTP_URL'' of
                       Inl err \<Rightarrow> Inl err
                     | Inr checked \<Rightarrow> Inr (UrlTransport checked smtpRequireTLS au, au))
                | None \<Rightarrow>
                    (let prt = nullish smtpPort (if smtpSecure = Some True then 465 else 587);
                         sec = nullish smtpSecure (prt = 465);
                         rtls = nullish smtpRequireTLS (\<not> sec)
                     in Inr (SmtpTransport smtpHost prt sec (Some rtls) au, au)))))))"

definition parseSender :: "runtime \<Rightarrow> env \<Rightarrow> MailAuth option \<Rightarrow> error + Sender" where
  "parseSender rt e au =
     (let addr = (case optional e ''MAIL_FROM_ADDRESS'' of
                    Some a \<Rightarrow> Some a
                  | None \<Rightarrow> map_option user au)
      in case addr of
           None \<Rightarrow>
             Inl (Thrown Error
                   ''Provide MAIL_FROM_ADDRESS or SMTP_USER/GMAIL_USER to define the sender address''
                   None)
         | Some a \<Rightarrow>
             if a = [] then
               Inl (Thrown Error
                     ''Provide MAIL_FROM_ADDRESS or SMTP_USER/GMAIL_USER to define the sender address''
                     None)
             else (case email_error rt a of
                     Some err \<Rightarrow> Inl err
                   | None \<Rightarrow>
                       Inr \<lparr>name = nullish (optional e ''MAIL_FROM_NAME'') ''Mail Service'',
                            address = a\<rparr>))"

text \<open>
  The module-level \<open>mailConfig\<close>: the transport is parsed first, then the API key is
  required, then the sender is parsed.
\<close>

definition mailConfig :: "runtime \<Rightarrow> env \<Rightarrow> error + MailConfig" where
  "mailConfig rt e =
     (case parseMailTransport rt e of
        Inl err \<Rightarrow> Inl err
      | Inr (mailTransport, mailAuth) \<Rightarrow>
          (case required e ''MAIL_SERVICE_API_KEY'' of
             Inl err \<Rightarrow> Inl err
           | Inr k \<Rightarrow>
               (case parseSender rt e mailAuth of
                  Inl err \<Rightarrow> Inl err
                | Inr s \<Rightarrow>
                    Inr \<lparr>apiKey = k, sender = s, transport = mailTransport,
                         timeouts = \<lparr>connection = 10000, greeting = 10000\<rparr>\<rparr>)))"

section \<open>The configuration the services read\<close>

record ExchangeConfig =
  url :: string
  username :: string
  password :: string
  fromEmail :: string

text \<open>
  Modelled from the spec: the services read \<open>config.mail.exchange\<close> and
  \<open>config.mail.defaultProvider\<close>, two fields that the \<open>MailConfig\<close> of \<open>env.ts\<close> above does
  not declare and no function of the source fills. The spec gives them as
  "\<open>exchange\<close> (optional): \<open>{url, username, password, fromEmail}\<close>" and
  "\<open>defaultProvider\<close>, resolved at startup"; the provider is one of the string literals
  \<open>"smtp"\<close> (the spec's relay) and \<open>"ews"\<close> (the spec's exchange) that \<open>sendMail\<close> compares
  it with.
\<close>

record ServiceConfig = MailConfig +
  exchange :: "ExchangeConfig option"
  defaultProvider :: string

text \<open>
  Modelled from the spec: the resolver of the default provider is missing from the source.
  "Default provider resolution: explicit setting wins; otherwise "exchange" if Exchange
  config is present, else "relay"."
\<close>

definition resolveDefaultProvider :: "string option \<Rightarrow> ExchangeConfig option \<Rightarrow> string" where
  "resolveDefaultProvider explicit exch =
     (case explicit of
        Some p \<Rightarrow> p
      | None \<Rightarrow> (case exch of Some _ \<Rightarrow> ''ews'' | None \<Rightarrow> ''smtp''))"

section \<open>Requests, messages and the trace of effects\<close>

text \<open>
  \<open>SMTPEmailPayload\<close> is \<open>{to, subject, text?, html?}\<close>; \<open>SendMailInput\<close> adds \<open>provider?\<close>
  and \<open>EWSEmailPayload\<close> adds \<open>fromName?\<close>.
\<close>

record SMTPEmailPayload =
  to :: string
  subject :: string
  text_part :: "string option"
  html_part :: "string option"

record SendMailInput = SMTPEmailPayload +
  provider :: "string option"

record EWSEmailPayload = SMTPEmailPayload +
  fromName :: "string option"

record SentMessageInfo =
  messageId :: string
  accepted :: "string list"
  rejected :: "string list"

datatype BodyType = HTML | Text

record EmailMessage =
  From_name :: string
  From_address :: string
  ToRecipients :: "string list"
  Subject :: string
  Body :: "BodyType \<times> string"

datatype level = Info | Err

text \<open>
  What a run does besides returning: the records written to the logger and to the console
  (level and message; the structured fields are left out), the entry into each adapter with
  its payload, and the calls that leave the process.
\<close>

datatype event =
    Log level string
  | Console level string
  | SmtpAdapter SMTPEmailPayload
  | EwsAdapter EWSEmailPayload
  | TransporterVerify
  | TransporterSendMail string SMTPEmailPayload
  | SendAndSaveCopy EmailMessage

text \<open>
  The libraries and the network. \<open>transporter_verify\<close> and \<open>transporter_sendMail\<close> are
  \<open>getTransporter().verify()\<close> and \<open>getTransporter().sendMail(mailOptions)\<close>, the latter
  applied to the from-header and the rest of the options; an error of
  \<open>nodemailer.createTransport\<close> is raised at the same place and counts among theirs.
  \<open>exchange_service_error\<close> is what the constructors in \<open>createExchangeService\<close> throw,
  \<open>email_message_error\<close> what the library throws while the message is put together,
  \<open>SendAndSaveCopy_error\<close> what \<open>message.SendAndSaveCopy()\<close> rejects with. The last three
  fields are cheerio on a loaded document: \<open>$("head style").html()\<close>, \<open>$("body").html()\<close>
  (both \<open>null\<close> when nothing matches) and \<open>$.html()\<close>.
\<close>

record world =
  transporter_verify :: "error option"
  transporter_sendMail :: "string \<Rightarrow> SMTPEmailPayload \<Rightarrow> error + SentMessageInfo"
  exchange_service_error :: "ExchangeConfig \<Rightarrow> error option"
  email_message_error :: "EWSEmailPayload \<Rightarrow> error option"
  SendAndSaveCopy_error :: "EmailMessage \<Rightarrow> error option"
  head_style_html :: "string \<Rightarrow> string option"
  body_html :: "string \<Rightarrow> string option"
  root_html :: "string \<Rightarrow> string"

text \<open>JavaScript truthiness of an optional string: \<open>undefined\<close> and \<open>""\<close> are falsy.\<close>

definition truthy_string :: "string option \<Rightarrow> bool" where
  "truthy_string v = (case v of None \<Rightarrow> False | Some s \<Rightarrow> s \<noteq> [])"

text \<open>\<open>a || b\<close> on an optional string and a default.\<close>

definition or_else :: "string option \<Rightarrow> string \<Rightarrow> string" where
  "or_else v d = (case v of None \<Rightarrow> d | Some s \<Rightarrow> if s \<noteq> [] then s else d)"

text \<open>\<open>s.includes(part)\<close> and \<open>s.startsWith(part)\<close>.\<close>

definition includes_str :: "string \<Rightarrow> string \<Rightarrow> bool" where
  "includes_str s part = sublist part s"

definition startsWith :: "string \<Rightarrow> string \<Rightarrow> bool" where
  "startsWith s part = prefix part s"

section \<open>services/smtp-service.ts\<close>

definition verifySmtpTransporter :: "world \<Rightarrow> event list \<times> (error + unit)" where
  "verifySmtpTransporter w =
     (case transporter_verify w of
        None \<Rightarrow> ([TransporterVerify, Log Info ''SMTP transporter verified''], Inr ())
      | Some err \<Rightarrow>
          ([TransporterVerify, Log Err ''SMTP transporter verification failed''],
           Inl (Thrown SMTPConfigError ''Failed to verify SMTP transporter'' (Some err))))"

definition fromHeader :: "Sender \<Rightarrow> string" where
  "fromHeader s =
     (if name s \<noteq> [] then name s @ '' <'' @ address s @ ''>'' else address s)"

definition sendEmailViaSmtp ::
  "('a ServiceConfig_scheme) \<Rightarrow> world \<Rightarrow> SMTPEmailPayload \<Rightarrow> event list \<times> (error + SentMessageInfo)" where
  "sendEmailViaSmtp cfg w payload =
     (let hdr = fromHeader (sender cfg) in
      case transporter_sendMail w hdr payload of
        Inr sent \<Rightarrow>
          ([SmtpAdapter payload, TransporterSendMail hdr payload,
            Log Info ''Email dispatched via SMTP''], Inr sent)
      | Inl err \<Rightarrow>
          ([SmtpAdapter payload, TransporterSendMail hdr payload,
            Log Err ''Failed to send email through SMTP transporter''],
           Inl (Thrown SMTPSendError ''Failed to send email via SMTP'' (Some err))))"

section \<open>services/ews-service.ts\<close>

definition resolveConfig :: "('a ServiceConfig_scheme) \<Rightarrow> error + ExchangeConfig" where
  "resolveConfig cfg =
     (let exchangeUrl = map_option url (exchange cfg);
          exchangeUsername = map_option username (exchange cfg);
          exchangePassword = map_option password (exchange cfg);
          exchangeFromEmail = map_option fromEmail (exchange cfg)
      in if \<not> truthy_string exchangeUrl then
           Inl (Thrown EWSConfigError ''EXCHANGE_URL is not set'' None)
         else if \<not> truthy_string exchangeUsername then
           Inl (Thrown EWSConfigError ''EXCHANGE_USERNAME is not set'' None)
         else if \<not> truthy_string exchangePassword then
           Inl (Thrown EWSConfigError ''EXCHANGE_PASSWORD is not set'' None)
         else if \<not> truthy_string exchangeFromEmail then
           Inl (Thrown EWSConfigError ''EXCHANGE_FROM_EMAIL is not set'' None)
         else
           Inr \<lparr>url = or_else exchangeUrl [], username = or_else exchangeUsername [],
                password = or_else exchangePassword [],
                fromEmail = or_else exchangeFromEmail []\<rparr>)"

definition sanitizeHtmlForEWS :: "world \<Rightarrow> string \<Rightarrow> string" where
  "sanitizeHtmlForEWS w html =
     (let styles = or_else (head_style_html w html) [];
          bodyContent = or_else (body_html w html) (root_html w html)
      in if styles \<noteq> [] then ''<style>'' @ styles @ ''</style>'' @ [CHR 0x0A] @ bodyContent
         else bodyContent)"

definition createExchangeService :: "world \<Rightarrow> ExchangeConfig \<Rightarrow> error + unit" where
  "createExchangeService w c =
     (case exchange_service_error w c of
        None \<Rightarrow> Inr ()
      | Some err \<Rightarrow>
          Inl (Thrown EWSConfigError (''Failed to create Exchange service: '' @ message err)
                None))"

text \<open>
  The \<open>try\<close> block that builds the message: the library calls come first, then the choice of
  the body. Its \<open>catch\<close> wraps whatever was thrown, the \<open>EWSSendError\<close> of the last branch
  included.
\<close>

definition buildMessage :: "world \<Rightarrow> ExchangeConfig \<Rightarrow> EWSEmailPayload \<Rightarrow> error + EmailMessage" where
  "buildMessage w c payload =
     (let thrown =
        (case email_message_error w payload of
           Some err \<Rightarrow> Inl err
         | None \<Rightarrow>
             (let m = \<lparr>From_name = or_else (fromName payload) ''DjazairMed'',
                       From_address = fromEmail c,
                       ToRecipients = [to payload],
                       Subject = subject payload,
                       Body = (Text, [])\<rparr>
              in if truthy_string (html_part payload) then
                   Inr (m\<lparr>Body := (HTML, sanitizeHtmlForEWS w (or_else (html_part payload) []))\<rparr>)
                 else if truthy_string (text_part payload) then
                   Inr (m\<lparr>Body := (Text, or_else (text_part payload) [])\<rparr>)
                 else
                   Inl (Thrown EWSSendError ''Email must have either text or html content''
                         None)))
      in case thrown of
           Inr m \<Rightarrow> Inr m
         | Inl err \<Rightarrow>
             Inl (Thrown EWSSendError (''Failed to create email message: '' @ message err)
                   (Some err)))"

definition classifySendFailure :: "error \<Rightarrow> error" where
  "classifySendFailure err =
     (let errorMessage = message err in
      if includes_str errorMessage ''authentication'' \<or> includes_str errorMessage ''credentials'' then
        Thrown EWSConnectionError ''Authentication failed. Please check Exchange credentials.''
          (Some err)
      else if includes_str errorMessage ''timeout'' \<or> includes_str errorMessage ''ETIMEDOUT'' then
        Thrown EWSConnectionError ''Connection timeout. Please check Exchange server URL.''
          (Some err)
      else if includes_str errorMessage ''ENOTFOUND'' \<or> includes_str errorMessage ''ECONNREFUSED'' then
        Thrown EWSConnectionError
          ''Cannot reach Exchange server. Please check the URL and network connectivity.''
          (Some err)
      else Thrown EWSSendError (''Failed to send email: '' @ errorMessage) (Some err))"

definition sendEmailViaEWS ::
  "('a ServiceConfig_scheme) \<Rightarrow> world \<Rightarrow> EWSEmailPayload \<Rightarrow> event list \<times> (error + unit)" where
  "sendEmailViaEWS cfg w payload =
     (case resolveConfig cfg of
        Inl err \<Rightarrow> ([EwsAdapter payload], Inl err)
      | Inr c \<Rightarrow>
     (case createExchangeService w c of
        Inl err \<Rightarrow>
          ([EwsAdapter payload, Console Err ''[ews-service] Failed to initialize Exchange service''],
           Inl err)
      | Inr _ \<Rightarrow>
     (case buildMessage w c payload of
        Inl err \<Rightarrow>
          ([EwsAdapter payload, Console Err ''[ews-service] Failed to create email message''],
           Inl err)
      | Inr m \<Rightarrow>
     (case SendAndSaveCopy_error w m of
        None \<Rightarrow>
          ([EwsAdapter payload, SendAndSaveCopy m,
            Console Info ''[ews-service] Email sent successfully''], Inr ())
      | Some err \<Rightarrow>
          ([EwsAdapter payload, SendAndSaveCopy m,
            Console Err ''[ews-service] Failed to send email''],
           Inl (classifySendFailure err))))))"

section \<open>services/mail.ts\<close>

definition is_SMTPConfigError :: "error \<Rightarrow> bool" where
  "is_SMTPConfigError e = (error_class e = SMTPConfigError)"

text \<open>
  \<open>verifyMailTransporter\<close>. The second \<open>try\<close> block only reads the configuration and
  logs, so nothing reaches its \<open>catch\<close>. \<open>errors.find\<close> returns an element exactly when
  \<open>errors.some\<close> holds, which lets one \<open>case\<close> stand for the test and the \<open>throw\<close>.
\<close>

definition verifyMailTransporter :: "('a ServiceConfig_scheme) \<Rightarrow> world \<Rightarrow> event list \<times> (error + unit)" where
  "verifyMailTransporter cfg w =
     (let smtp = verifySmtpTransporter w;
          errors = (case snd smtp of Inl err \<Rightarrow> [err] | Inr _ \<Rightarrow> []);
          checked =
            fst smtp @
            [if exchange cfg = None then
               Log Info ''Exchange configuration not set, skipping EWS verification''
             else Log Info ''Exchange configuration verified'']
      in case (if defaultProvider cfg = ''smtp'' then find is_SMTPConfigError errors else None) of
           Some err \<Rightarrow>
             (checked @ [Log Err ''Default provider (SMTP) failed verification''], Inl err)
         | None \<Rightarrow>
             if defaultProvider cfg = ''ews'' \<and> exchange cfg = None then
               (checked @ [Log Err ''Exchange configuration verification failed''],
                Inl (Thrown Error ''Default provider is EWS but Exchange configuration is missing''
                      None))
             else (checked @ [Log Info ''Mail service configured''], Inr ()))"

definition DEFAULT_SUBJECT_PREFIX :: string where
  "DEFAULT_SUBJECT_PREFIX = ''[Djazairmed]''"

definition prefixedSubject :: "string \<Rightarrow> string" where
  "prefixedSubject subj =
     (if startsWith subj DEFAULT_SUBJECT_PREFIX then subj
      else DEFAULT_SUBJECT_PREFIX @ '' '' @ subj)"

text \<open>The payloads that \<open>sendMail\<close> hands to the two adapters.\<close>

definition smtpPayload :: "('b SendMailInput_scheme) \<Rightarrow> SMTPEmailPayload" where
  "smtpPayload inp =
     \<lparr>to = to inp, subject = subject inp, text_part = text_part inp, html_part = html_part inp\<rparr>"

definition ewsPayload :: "('a ServiceConfig_scheme) \<Rightarrow> ('b SendMailInput_scheme) \<Rightarrow> EWSEmailPayload" where
  "ewsPayload cfg inp =
     \<lparr>to = to inp,
      subject = prefixedSubject (subject inp),
      text_part = (if truthy_string (text_part inp) then text_part inp else None),
      html_part = (if truthy_string (html_part inp) then html_part inp else None),
      fromName = Some (name (sender cfg))\<rparr>"

text \<open>\<open>provider ?? config.mail.defaultProvider\<close>, the \<open>selectedProvider\<close> of \<open>sendMail\<close>.\<close>

definition selectedProvider :: "('a ServiceConfig_scheme) \<Rightarrow> ('b SendMailInput_scheme) \<Rightarrow> string" where
  "selectedProvider cfg inp = nullish (provider inp) (defaultProvider cfg)"

definition sendMail :: "('a ServiceConfig_scheme) \<Rightarrow> world \<Rightarrow> SendMailInput \<Rightarrow> event list \<times> (error + unit)" where
  "sendMail cfg w inp =
     (if \<not> truthy_string (html_part inp) \<and> \<not> truthy_string (text_part inp) then
        ([Log Err ''Missing email content (html/text)''],
         Inl (Thrown MailSendError ''Missing email content (html/text)'' None))
      else
        (let sel = selectedProvider cfg inp in
         if sel = ''smtp'' then
           (case sendEmailViaSmtp cfg w (smtpPayload inp) of
              (evs, Inr _) \<Rightarrow>
                (Log Info ''Sending email'' # evs @ [Log Info ''Mail dispatched via SMTP''], Inr ())
            | (evs, Inl err) \<Rightarrow>
                (Log Info ''Sending email'' # evs @
                 [if error_class err = SMTPSendError \<or> error_class err = SMTPConfigError then
                    Log Err ''SMTP error''
                  else Log Err ''Unexpected error while sending email via SMTP''],
                 Inl (Thrown MailSendError ''Failed to send email via SMTP'' (Some err))))
         else if sel = ''ews'' then
           (if exchange cfg = None then
              ([Log Info ''Sending email'', Log Err ''Exchange configuration is not set''],
               Inl (Thrown MailSendError ''Exchange configuration is not set'' None))
            else
              (case sendEmailViaEWS cfg w (ewsPayload cfg inp) of
                 (evs, Inr _) \<Rightarrow>
                   (Log Info ''Sending email'' # evs @ [Log Info ''Mail dispatched via Exchange''],
                    Inr ())
               | (evs, Inl err) \<Rightarrow>
                   (Log Info ''Sending email'' # evs @
                    [if error_class err = EWSConfigError then
                       Log Err ''Exchange configuration error''
                     else if error_class err = EWSConnectionError then
                       Log Err ''Exchange connection error''
                     else if error_class err = EWSSendError then Log Err ''Exchange send error''
                     else Log Err ''Unexpected error while sending email via Exchange''],
                    Inl (Thrown MailSendError ''Failed to send email via Exchange'' (Some err)))))
         else
           ([Log Info ''Sending email''],
            Inl (Thrown MailSendError (''Unsupported provider: '' @ sel) None))))"

section \<open>Observations on a run\<close>

text \<open>
  The adapters that a run entered, the calls that left the process, and whether the
  request carries content (the negation of the first test of \<open>sendMail\<close>).
\<close>

definition adapter_calls :: "event list \<Rightarrow> event list" where
  "adapter_calls evs =
     filter (\<lambda>ev. case ev of SmtpAdapter _ \<Rightarrow> True | EwsAdapter _ \<Rightarrow> True | _ \<Rightarrow> False) evs"

definition outbound_calls :: "event list \<Rightarrow> event list" where
  "outbound_calls evs =
     filter (\<lambda>ev. case ev of TransporterVerify \<Rightarrow> True | TransporterSendMail _ _ \<Rightarrow> True
                  | SendAndSaveCopy _ \<Rightarrow> True | _ \<Rightarrow> False) evs"

definition has_content :: "('b SendMailInput_scheme) \<Rightarrow> bool" where
  "has_content inp = (truthy_string (html_part inp) \<or> truthy_string (text_part inp))"

text \<open>
  The configuration-error classes of the two adapters, and a run that ends in an error of a
  given kind.
\<close>

definition is_ConfigurationError :: "error \<Rightarrow> bool" where
  "is_ConfigurationError e = (error_class e = EWSConfigError \<or> error_class e = SMTPConfigError)"

definition fails_with :: "(error \<Rightarrow> bool) \<Rightarrow> error + 'a \<Rightarrow> bool" where
  "fails_with kind r = (case r of Inl e \<Rightarrow> kind e | Inr _ \<Rightarrow> False)"

section \<open>Sample runs\<close>

text \<open>
  A world in which every library call succeeds and cheerio finds neither a style sheet nor a
  body, and one whose relay rejects every call.
\<close>

definition calm_world :: world where
  "calm_world =
     \<lparr>transporter_verify = None,
      transporter_sendMail = (\<lambda>_ _. Inr \<lparr>messageId = ''<1@relay>'', accepted = [], rejected = []\<rparr>),
      exchange_service_error = (\<lambda>_. None),
      email_message_error = (\<lambda>_. None),
      SendAndSaveCopy_error = (\<lambda>_. None),
      head_style_html = (\<lambda>_. None),
      body_html = (\<lambda>_. None),
      root_html = (\<lambda>h. h)\<rparr>"

definition ECONNREFUSED :: error where
  "ECONNREFUSED = Thrown Error ''connect ECONNREFUSED 127.0.0.1:587'' None"

definition down_world :: world where
  "down_world =
     calm_world\<lparr>transporter_verify := Some ECONNREFUSED,
                transporter_sendMail := (\<lambda>_ _. Inl ECONNREFUSED),
                SendAndSaveCopy_error := (\<lambda>_. Some ECONNREFUSED)\<rparr>"

definition relay_config :: ServiceConfig where
  "relay_config =
     \<lparr>apiKey = ''k'', sender = \<lparr>name = ''Mail Service'', address = ''a@b.com''\<rparr>,
      transport = SmtpTransport ''smtp.gmail.com'' 587 False (Some True) None,
      timeouts = \<lparr>connection = 10000, greeting = 10000\<rparr>,
      exchange = None, defaultProvider = ''smtp''\<rparr>"

definition exchange_config :: ServiceConfig where
  "exchange_config =
     relay_config\<lparr>exchange := Some \<lparr>url = ''https://mail.example/EWS/Exchange.asmx'',
                                     username = ''svc'', password = ''pw'',
                                     fromEmail = ''svc@example.com''\<rparr>,
                  defaultProvider := ''ews''\<rparr>"

definition hello :: SendMailInput where
  "hello = \<lparr>to = ''a@b.com'', subject = ''Hello'', text_part = Some ''hey'', html_part = None,
            provider = None\<rparr>"

text \<open>
  A runtime whose \<open>Number\<close> reads unsigned decimal literals (the other spellings that
  JavaScript accepts are left out) and that accepts every URL and address, and an
  environment of a relay-only deployment with a blank display name.
\<close>

definition digit_value :: "char \<Rightarrow> int option" where
  "digit_value c =
     (let n = (of_char c :: nat) in if 48 \<le> n \<and> n \<le> 57 then Some (int n - 48) else None)"

fun decimal :: "int \<Rightarrow> string \<Rightarrow> int option" where
  "decimal acc [] = Some acc"
| "decimal acc (c # cs) =
     (case digit_value c of None \<Rightarrow> None | Some d \<Rightarrow> decimal (10 * acc + d) cs)"

definition plain_runtime :: runtime where
  "plain_runtime =
     \<lparr>Number_integer = (\<lambda>s. if s = [] then None else decimal 0 s),
      URL_error = (\<lambda>_. None),
      email_error = (\<lambda>_. None)\<rparr>"

definition relay_env :: env where
  "relay_env =
     [''MAIL_SERVICE_API_KEY'' \<mapsto> ''k'', ''SMTP_PORT'' \<mapsto> ''465'',
      ''SMTP_USER'' \<mapsto> ''a@b.com'', ''SMTP_PASSWORD'' \<mapsto> ''pw'',
      ''MAIL_FROM_NAME'' \<mapsto> ''   '']"

section \<open>Helper lemmas\<close>

lemma adapter_calls_simps:
  "adapter_calls [] = []"
  "adapter_calls (Log l m # evs) = adapter_calls evs"
  "adapter_calls (Console l m # evs) = adapter_calls evs"
  "adapter_calls (SmtpAdapter p # evs) = SmtpAdapter p # adapter_calls evs"
  "adapter_calls (EwsAdapter q # evs) = EwsAdapter q # adapter_calls evs"
  "adapter_calls (TransporterVerify # evs) = adapter_calls evs"
  "adapter_calls (TransporterSendMail h p # evs) = adapter_calls evs"
  "adapter_calls (SendAndSaveCopy em # evs) = adapter_calls evs"
  "adapter_calls (xs @ ys) = adapter_calls xs @ adapter_calls ys"
  by (simp_all add: adapter_calls_def)

lemma outbound_calls_simps:
  "outbound_calls [] = []"
  "outbound_calls (Log l m # evs) = outbound_calls evs"
  "outbound_calls (Console l m # evs) = outbound_calls evs"
  "outbound_calls (SmtpAdapter p # evs) = outbound_calls evs"
  "outbound_calls (EwsAdapter q # evs) = outbound_calls evs"
  "outbound_calls (TransporterVerify # evs) = TransporterVerify # outbound_calls evs"
  "outbound_calls (TransporterSendMail h p # evs) = TransporterSendMail h p # outbound_calls evs"
  "outbound_calls (SendAndSaveCopy em # evs) = SendAndSaveCopy em # outbound_calls evs"
  "outbound_calls (xs @ ys) = outbound_calls xs @ outbound_calls ys"
  by (simp_all add: outbound_calls_def)

lemma adapter_calls_smtp:
  "adapter_calls (fst (sendEmailViaSmtp cfg w p)) = [SmtpAdapter p]"
  by (simp add: sendEmailViaSmtp_def adapter_calls_simps Let_def split: sum.splits)

lemma adapter_calls_ews:
  "adapter_calls (fst (sendEmailViaEWS cfg w q)) = [EwsAdapter q]"
  by (simp add: sendEmailViaEWS_def adapter_calls_simps split: sum.splits option.splits)

lemma sendMail_no_content:
  assumes "\<not> has_content inp"
  shows "sendMail cfg w inp =
           ([Log Err ''Missing email content (html/text)''],
            Inl (Thrown MailSendError ''Missing email content (html/text)'' None))"
  using assms by (simp add: sendMail_def has_content_def)

lemma sendMail_smtp:
  assumes "has_content inp" and "selectedProvider cfg inp = ''smtp''"
  shows "sendMail cfg w inp =
     (case sendEmailViaSmtp cfg w (smtpPayload inp) of
        (evs, Inr _) \<Rightarrow>
          (Log Info ''Sending email'' # evs @ [Log Info ''Mail dispatched via SMTP''], Inr ())
      | (evs, Inl err) \<Rightarrow>
          (Log Info ''Sending email'' # evs @
           [if error_class err = SMTPSendError \<or> error_class err = SMTPConfigError then
              Log Err ''SMTP error''
            else Log Err ''Unexpected error while sending email via SMTP''],
           Inl (Thrown MailSendError ''Failed to send email via SMTP'' (Some err))))"
  using assms by (auto simp add: sendMail_def has_content_def)

lemma sendMail_ews:
  assumes "has_content inp" and "selectedProvider cfg inp = ''ews''" and "exchange cfg \<noteq> None"
  shows "sendMail cfg w inp =
     (case sendEmailViaEWS cfg w (ewsPayload cfg inp) of
        (evs, Inr _) \<Rightarrow>
          (Log Info ''Sending email'' # evs @ [Log Info ''Mail dispatched via Exchange''],
           Inr ())
      | (evs, Inl err) \<Rightarrow>
          (Log Info ''Sending email'' # evs @
           [if error_class err = EWSConfigError then
              Log Err ''Exchange configuration error''
            else if error_class err = EWSConnectionError then
              Log Err ''Exchange connection error''
            else if error_class err = EWSSendError then Log Err ''Exchange send error''
            else Log Err ''Unexpected error while sending email via Exchange''],
           Inl (Thrown MailSendError ''Failed to send email via Exchange'' (Some err))))"
  using assms by (auto simp add: sendMail_def has_content_def)

lemma sendMail_ews_unconfigured:
  assumes "has_content inp" and "selectedProvider cfg inp = ''ews''" and "exchange cfg = None"
  shows "sendMail cfg w inp =
           ([Log Info ''Sending email'', Log Err ''Exchange configuration is not set''],
            Inl (Thrown MailSendError ''Exchange configuration is not set'' None))"
  using assms by (auto simp add: sendMail_def has_content_def)

lemma sendMail_unsupported:
  assumes "has_content inp"
    and "selectedProvider cfg inp \<noteq> ''smtp''" and "selectedProvider cfg inp \<noteq> ''ews''"
  shows "sendMail cfg w inp =
           ([Log Info ''Sending email''],
            Inl (Thrown MailSendError (''Unsupported provider: '' @ selectedProvider cfg inp) None))"
  using assms by (auto simp add: sendMail_def has_content_def)

lemma adapter_calls_sendMail:
  "adapter_calls (fst (sendMail cfg w inp)) =
     (if \<not> has_content inp then []
      else if selectedProvider cfg inp = ''smtp'' then [SmtpAdapter (smtpPayload inp)]
      else if selectedProvider cfg inp = ''ews'' \<and> exchange cfg \<noteq> None then
        [EwsAdapter (ewsPayload cfg inp)]
      else [])"
proof -
  consider (none) "\<not> has_content inp"
    | (smtp) "has_content inp" "selectedProvider cfg inp = ''smtp''"
    | (ews) "has_content inp" "selectedProvider cfg inp = ''ews''" "exchange cfg \<noteq> None"
    | (unconfigured) "has_content inp" "selectedProvider cfg inp = ''ews''" "exchange cfg = None"
    | (unsupported) "has_content inp" "selectedProvider cfg inp \<noteq> ''smtp''"
        "selectedProvider cfg inp \<noteq> ''ews''"
    by blast
  then show ?thesis
  proof cases
    case none
    then show ?thesis by (simp add: sendMail_no_content adapter_calls_simps)
  next
    case smtp
    have "adapter_calls (fst (sendMail cfg w inp)) =
            adapter_calls (fst (sendEmailViaSmtp cfg w (smtpPayload inp)))"
      by (simp add: sendMail_smtp [OF smtp] adapter_calls_simps split: prod.splits sum.splits)
    with smtp show ?thesis by (simp add: adapter_calls_smtp)
  next
    case ews
    have "adapter_calls (fst (sendMail cfg w inp)) =
            adapter_calls (fst (sendEmailViaEWS cfg w (ewsPayload cfg inp)))"
      by (simp add: sendMail_ews [OF ews] adapter_calls_simps split: prod.splits sum.splits)
    with ews show ?thesis by (simp add: adapter_calls_ews)
  next
    case unconfigured
    then show ?thesis by (simp add: sendMail_ews_unconfigured adapter_calls_simps)
  next
    case unsupported
    then show ?thesis by (simp add: sendMail_unsupported adapter_calls_simps)
  qed
qed

lemma sendMail_error_class:
  "snd (sendMail cfg w inp) = Inl e \<Longrightarrow> error_class e = MailSendError"
  by (auto simp add: sendMail_def Let_def split: if_splits prod.splits sum.splits)

lemma sendMail_wraps_smtp:
  assumes "has_content inp" and "selectedProvider cfg inp = ''smtp''"
    and "snd (sendEmailViaSmtp cfg w (smtpPayload inp)) = Inl a"
  shows "snd (sendMail cfg w inp) =
           Inl (Thrown MailSendError ''Failed to send email via SMTP'' (Some a))"
  using assms(3) by (auto simp add: sendMail_smtp [OF assms(1,2)] split: prod.splits sum.splits)

lemma sendMail_wraps_ews:
  assumes "has_content inp" and "selectedProvider cfg inp = ''ews''" and "exchange cfg \<noteq> None"
    and "snd (sendEmailViaEWS cfg w (ewsPayload cfg inp)) = Inl a"
  shows "snd (sendMail cfg w inp) =
           Inl (Thrown MailSendError ''Failed to send email via Exchange'' (Some a))"
  using assms(4) by (auto simp add: sendMail_ews [OF assms(1,2,3)] split: prod.splits sum.splits)

lemma sendMail_default_irrelevant:
  "provider inp = Some p \<Longrightarrow> sendMail (cfg\<lparr>defaultProvider := d\<rparr>) w inp = sendMail cfg w inp"
  by (simp add: sendMail_def selectedProvider_def nullish_def sendEmailViaSmtp_def
        sendEmailViaEWS_def ewsPayload_def resolveConfig_def)

lemma smtpPayload_provider: "smtpPayload (inp\<lparr>provider := x\<rparr>) = smtpPayload inp"
  by (simp add: smtpPayload_def)

lemma ewsPayload_provider: "ewsPayload cfg (inp\<lparr>provider := x\<rparr>) = ewsPayload cfg inp"
  by (simp add: ewsPayload_def)

lemma sendMail_default_used:
  "provider inp = None \<Longrightarrow>
     sendMail cfg w inp = sendMail cfg w (inp\<lparr>provider := Some (defaultProvider cfg)\<rparr>)"
  by (simp add: sendMail_def selectedProvider_def nullish_def Let_def smtpPayload_provider
        ewsPayload_provider)

lemma prefixedSubject_idem: "prefixedSubject (prefixedSubject s) = prefixedSubject s"
  by (simp add: prefixedSubject_def startsWith_def)

lemma sendEmailViaEWS_Subject:
  "SendAndSaveCopy em \<in> set (fst (sendEmailViaEWS cfg w q)) \<Longrightarrow> Subject em = subject q"
  by (auto simp add: sendEmailViaEWS_def buildMessage_def Let_def
        split: sum.splits option.splits if_splits)

lemma sendMail_Subject:
  assumes "SendAndSaveCopy em \<in> set (fst (sendMail cfg w inp))"
  shows "Subject em = prefixedSubject (subject inp)"
proof -
  have smtp: "SendAndSaveCopy em \<notin> set (fst (sendEmailViaSmtp cfg w p))" for p
    by (simp add: sendEmailViaSmtp_def Let_def split: sum.splits)
  from assms have "SendAndSaveCopy em \<in> set (fst (sendEmailViaEWS cfg w (ewsPayload cfg inp)))"
    using smtp [of "smtpPayload inp"]
    by (auto simp add: sendMail_def Let_def split: if_splits prod.splits sum.splits)
  then have "Subject em = subject (ewsPayload cfg inp)"
    by (rule sendEmailViaEWS_Subject)
  then show ?thesis by (simp add: ewsPayload_def)
qed

lemma optional_nonempty: "optional e key = Some v \<Longrightarrow> v \<noteq> []"
  by (auto simp add: optional_def Let_def split: option.splits if_splits)

lemma optional_blank:
  "(case e key of None \<Rightarrow> True | Some v \<Rightarrow> trim v = []) \<Longrightarrow> optional e key = None"
  by (auto simp add: optional_def Let_def split: option.splits)

lemma parseSender_name:
  "parseSender rt e au = Inr s \<Longrightarrow>
     name s = (case optional e ''MAIL_FROM_NAME'' of Some n \<Rightarrow> n | None \<Rightarrow> ''Mail Service'')"
  by (auto simp add: parseSender_def Let_def nullish_def split: option.splits if_splits)

lemma mailConfig_sender:
  "mailConfig rt e = Inr cfg \<Longrightarrow> \<exists>au. parseSender rt e au = Inr (sender cfg)"
  by (auto simp add: mailConfig_def split: sum.splits prod.splits)

lemma mailConfig_name:
  assumes "mailConfig rt e = Inr cfg"
  shows "name (sender cfg) =
           (case optional e ''MAIL_FROM_NAME'' of Some n \<Rightarrow> n | None \<Rightarrow> ''Mail Service'')"
proof -
  from assms obtain au where "parseSender rt e au = Inr (sender cfg)"
    using mailConfig_sender by blast
  then show ?thesis by (rule parseSender_name)
qed

lemma mailConfig_name_nonempty:
  assumes "mailConfig rt e = Inr cfg"
  shows "name (sender cfg) \<noteq> []"
  using mailConfig_name [OF assms] optional_nonempty [of e "''MAIL_FROM_NAME''"]
  by (auto split: option.splits)

lemma relay_env_config:
  "mailConfig plain_runtime relay_env =
     Inr \<lparr>apiKey = ''k'', sender = \<lparr>name = ''Mail Service'', address = ''a@b.com''\<rparr>,
          transport = SmtpTransport ''smtp.gmail.com'' 465 True (Some False)
                        (Some \<lparr>user = ''a@b.com'', pass = ''pw''\<rparr>),
          timeouts = \<lparr>connection = 10000, greeting = 10000\<rparr>\<rparr>"
  by (simp add: mailConfig_def parseMailTransport_def parseSender_def required_def relay_env_def
        plain_runtime_def optional_def optionalInteger_def optionalBoolean_def nullish_def
        trim_def is_white_space_def digit_value_def Let_def)

text \<open>
  What \<open>sanitizeHtmlForEWS\<close> itself adds to cheerio's answers: the first style sheet of the
  head, when there is one, is wrapped again and put on a line before the body; and when the
  body is empty, the whole serialized document takes its place.
\<close>

lemma sanitizeHtmlForEWS_assembly:
  "sanitizeHtmlForEWS w html =
     (let body = (case body_html w html of
                    None \<Rightarrow> root_html w html
                  | Some b \<Rightarrow> if b = [] then root_html w html else b)
      in case head_style_html w html of
           None \<Rightarrow> body
         | Some css \<Rightarrow>
             if css = [] then body else ''<style>'' @ css @ ''</style>'' @ [CHR 0x0A] @ body)"
  by (simp add: sanitizeHtmlForEWS_def or_else_def Let_def split: option.splits)

lemma sanitizeHtmlForEWS_styled:
  assumes "head_style_html w html = Some css" and "css \<noteq> []"
    and "body_html w html = Some b" and "b \<noteq> []"
  shows "sanitizeHtmlForEWS w html = ''<style>'' @ css @ ''</style>'' @ [CHR 0x0A] @ b"
  using assms by (simp add: sanitizeHtmlForEWS_assembly)

lemma sanitizeHtmlForEWS_fragment:
  assumes "head_style_html w html = None" and "body_html w html = Some html" and "html \<noteq> []"
  shows "sanitizeHtmlForEWS w html = html"
  using assms by (simp add: sanitizeHtmlForEWS_assembly)

lemma sanitizeHtmlForEWS_empty_body:
  assumes "head_style_html w html = Some css" and "css \<noteq> []"
    and "body_html w html = Some []"
  shows "sanitizeHtmlForEWS w html =
           ''<style>'' @ css @ ''</style>'' @ [CHR 0x0A] @ root_html w html"
  using assms by (simp add: sanitizeHtmlForEWS_assembly)

section \<open>The claims\<close>

text \<open>
  C1. Every request in which both \<open>text\<close> and \<open>html\<close> are absent makes \<open>sendMail\<close> fail
  with the \<open>MailSendError\<close> whose message is "Missing email content (html/text)"; the run
  enters neither the SMTP adapter nor the Exchange adapter, and no call leaves the process.
\<close>

theorem sendMail_missing_content:
  assumes "text_part inp = None" and "html_part inp = None"
  shows "snd (sendMail cfg w inp) =
           Inl (Thrown MailSendError ''Missing email content (html/text)'' None)
         \<and> adapter_calls (fst (sendMail cfg w inp)) = []
         \<and> outbound_calls (fst (sendMail cfg w inp)) = []"
proof -
  from assms have "\<not> has_content inp"
    by (simp add: has_content_def truthy_string_def)
  then show ?thesis
    by (simp add: sendMail_no_content adapter_calls_simps outbound_calls_simps)
qed

theorem sendMail_missing_content_witness:
  "snd (sendMail relay_config calm_world (hello\<lparr>text_part := None\<rparr>)) =
     Inl (Thrown MailSendError ''Missing email content (html/text)'' None)
   \<and> adapter_calls (fst (sendMail relay_config calm_world (hello\<lparr>text_part := None\<rparr>))) = []"
  using sendMail_missing_content [of "hello\<lparr>text_part := None\<rparr>" relay_config calm_world]
  by (simp add: hello_def)

text \<open>
  C2. For a request with content, the provider that \<open>sendMail\<close> selects is the request's
  \<open>provider\<close> whenever it is set, whatever the configured default is, and the configured
  default otherwise: with the field set, the run does not depend on the default; with the
  field unset, the run is the one of the same request with the default written in; and the
  adapter entered is the one of the selected provider. The selection is a total function of
  the two values.
\<close>

theorem sendMail_selects_provider:
  assumes "has_content inp"
  shows "(\<forall>p d. provider inp = Some p \<longrightarrow>
            selectedProvider (cfg\<lparr>defaultProvider := d\<rparr>) inp = p
            \<and> sendMail (cfg\<lparr>defaultProvider := d\<rparr>) w inp = sendMail cfg w inp)
         \<and> (provider inp = None \<longrightarrow>
              selectedProvider cfg inp = defaultProvider cfg
              \<and> sendMail cfg w inp =
                  sendMail cfg w (inp\<lparr>provider := Some (defaultProvider cfg)\<rparr>))
         \<and> adapter_calls (fst (sendMail cfg w inp)) =
             (if selectedProvider cfg inp = ''smtp'' then [SmtpAdapter (smtpPayload inp)]
              else if selectedProvider cfg inp = ''ews'' \<and> exchange cfg \<noteq> None then
                [EwsAdapter (ewsPayload cfg inp)]
              else [])"
proof (intro conjI allI impI)
  fix p d
  assume "provider inp = Some p"
  then show "selectedProvider (cfg\<lparr>defaultProvider := d\<rparr>) inp = p"
    by (simp add: selectedProvider_def nullish_def)
  from \<open>provider inp = Some p\<close>
  show "sendMail (cfg\<lparr>defaultProvider := d\<rparr>) w inp = sendMail cfg w inp"
    by (rule sendMail_default_irrelevant)
next
  assume "provider inp = None"
  then show "selectedProvider cfg inp = defaultProvider cfg"
    by (simp add: selectedProvider_def nullish_def)
  from \<open>provider inp = None\<close>
  show "sendMail cfg w inp = sendMail cfg w (inp\<lparr>provider := Some (defaultProvider cfg)\<rparr>)"
    by (rule sendMail_default_used)
next
  from assms show "adapter_calls (fst (sendMail cfg w inp)) =
             (if selectedProvider cfg inp = ''smtp'' then [SmtpAdapter (smtpPayload inp)]
              else if selectedProvider cfg inp = ''ews'' \<and> exchange cfg \<noteq> None then
                [EwsAdapter (ewsPayload cfg inp)]
              else [])"
    by (simp add: adapter_calls_sendMail)
qed

theorem sendMail_selects_provider_witness:
  "has_content (hello\<lparr>provider := Some ''smtp''\<rparr>)
   \<and> sendMail (exchange_config\<lparr>defaultProvider := ''ews''\<rparr>) calm_world
         (hello\<lparr>provider := Some ''smtp''\<rparr>) =
       sendMail exchange_config calm_world (hello\<lparr>provider := Some ''smtp''\<rparr>)
   \<and> adapter_calls (fst (sendMail exchange_config calm_world (hello\<lparr>provider := Some ''smtp''\<rparr>))) =
       [SmtpAdapter (smtpPayload hello)]
   \<and> has_content hello \<and> provider hello = None
   \<and> sendMail exchange_config calm_world hello =
       sendMail exchange_config calm_world (hello\<lparr>provider := Some ''ews''\<rparr>)
   \<and> adapter_calls (fst (sendMail exchange_config calm_world hello)) =
       [EwsAdapter (ewsPayload exchange_config hello)]"
proof -
  have c: "has_content (hello\<lparr>provider := Some ''smtp''\<rparr>)"
    by (simp add: has_content_def hello_def truthy_string_def)
  have d: "has_content hello"
    by (simp add: has_content_def hello_def truthy_string_def)
  have n: "provider hello = None"
    by (simp add: hello_def)
  have x: "defaultProvider exchange_config = ''ews''" "exchange exchange_config \<noteq> None"
    by (simp_all add: exchange_config_def)
  note set = sendMail_selects_provider [OF c, of exchange_config calm_world]
  note unset = sendMail_selects_provider [OF d, of exchange_config calm_world]
  have a1: "sendMail (exchange_config\<lparr>defaultProvider := ''ews''\<rparr>) calm_world
         (hello\<lparr>provider := Some ''smtp''\<rparr>) =
       sendMail exchange_config calm_world (hello\<lparr>provider := Some ''smtp''\<rparr>)"
    using set by simp
  have a2: "adapter_calls (fst (sendMail exchange_config calm_world (hello\<lparr>provider := Some ''smtp''\<rparr>))) =
       [SmtpAdapter (smtpPayload hello)]"
    using set by (simp add: selectedProvider_def nullish_def smtpPayload_def)
  have b1: "sendMail exchange_config calm_world hello =
       sendMail exchange_config calm_world (hello\<lparr>provider := Some ''ews''\<rparr>)"
    using unset n x by simp
  have b2: "adapter_calls (fst (sendMail exchange_config calm_world hello)) =
       [EwsAdapter (ewsPayload exchange_config hello)]"
    using unset [THEN conjunct2, THEN conjunct2] n x
    by (simp add: selectedProvider_def nullish_def)
  show ?thesis
    by (intro conjI) (rule c, rule a1, rule a2, rule d, rule n, rule b1, rule b2)
qed

text \<open>
  C3 as stated: a request that resolves to \<open>"ews"\<close> while the Exchange configuration is
  absent fails with a configuration error. It does not: the error is a \<open>MailSendError\<close>,
  which is neither \<open>EWSConfigError\<close> nor \<open>SMTPConfigError\<close>.
\<close>

theorem sendMail_unconfigured_not_ConfigurationError:
  "\<not> fails_with is_ConfigurationError
       (snd (sendMail relay_config calm_world (hello\<lparr>provider := Some ''ews''\<rparr>)))"
  by (simp add: sendMail_def selectedProvider_def nullish_def relay_config_def hello_def
        truthy_string_def fails_with_def is_ConfigurationError_def)

text \<open>
  C3 amended. A request with content that resolves to \<open>"ews"\<close> while the Exchange
  configuration is absent fails at once with the \<open>MailSendError\<close> whose message is
  "Exchange configuration is not set" and that has no cause; the run enters no adapter, the
  SMTP adapter in particular, and no call leaves the process.
\<close>

theorem sendMail_exchange_unconfigured:
  assumes "has_content inp" and "selectedProvider cfg inp = ''ews''" and "exchange cfg = None"
  shows "sendMail cfg w inp =
           ([Log Info ''Sending email'', Log Err ''Exchange configuration is not set''],
            Inl (Thrown MailSendError ''Exchange configuration is not set'' None))
         \<and> adapter_calls (fst (sendMail cfg w inp)) = []
         \<and> outbound_calls (fst (sendMail cfg w inp)) = []"
  using assms
  by (simp add: sendMail_ews_unconfigured adapter_calls_simps outbound_calls_simps)

theorem sendMail_exchange_unconfigured_witness:
  "has_content (hello\<lparr>provider := Some ''ews''\<rparr>)
   \<and> selectedProvider relay_config (hello\<lparr>provider := Some ''ews''\<rparr>) = ''ews''
   \<and> exchange relay_config = None
   \<and> snd (sendMail relay_config down_world (hello\<lparr>provider := Some ''ews''\<rparr>)) =
       Inl (Thrown MailSendError ''Exchange configuration is not set'' None)"
proof -
  have c: "has_content (hello\<lparr>provider := Some ''ews''\<rparr>)"
    by (simp add: has_content_def hello_def truthy_string_def)
  have s: "selectedProvider relay_config (hello\<lparr>provider := Some ''ews''\<rparr>) = ''ews''"
    by (simp add: selectedProvider_def nullish_def hello_def)
  have x: "exchange relay_config = None"
    by (simp add: relay_config_def)
  show ?thesis
    using c s x sendMail_exchange_unconfigured [OF c s x, of down_world] by simp
qed

text \<open>
  C4. Whatever error an adapter raises during \<open>sendMail\<close>, on the SMTP path or on the
  Exchange path, \<open>sendMail\<close> throws a \<open>MailSendError\<close> that has the adapter's error as its
  cause, so no adapter error is swallowed; and every error that leaves \<open>sendMail\<close> is a
  \<open>MailSendError\<close>.
\<close>

theorem sendMail_wraps_adapter_errors:
  "(snd (sendMail cfg w inp) = Inl e \<longrightarrow> error_class e = MailSendError)
   \<and> (has_content inp \<and> selectedProvider cfg inp = ''smtp''
        \<and> snd (sendEmailViaSmtp cfg w (smtpPayload inp)) = Inl a \<longrightarrow>
      snd (sendMail cfg w inp) =
        Inl (Thrown MailSendError ''Failed to send email via SMTP'' (Some a)))
   \<and> (has_content inp \<and> selectedProvider cfg inp = ''ews'' \<and> exchange cfg \<noteq> None
        \<and> snd (sendEmailViaEWS cfg w (ewsPayload cfg inp)) = Inl a \<longrightarrow>
      snd (sendMail cfg w inp) =
        Inl (Thrown MailSendError ''Failed to send email via Exchange'' (Some a)))"
  by (auto simp add: sendMail_error_class sendMail_wraps_smtp sendMail_wraps_ews)

lemma sendEmailViaSmtp_down:
  "snd (sendEmailViaSmtp relay_config down_world (smtpPayload hello)) =
     Inl (Thrown SMTPSendError ''Failed to send email via SMTP'' (Some ECONNREFUSED))"
  by (simp add: sendEmailViaSmtp_def down_world_def calm_world_def)

lemma classifySendFailure_ECONNREFUSED:
  "classifySendFailure ECONNREFUSED =
     Thrown EWSConnectionError
       ''Cannot reach Exchange server. Please check the URL and network connectivity.''
       (Some ECONNREFUSED)"
  by (simp add: classifySendFailure_def ECONNREFUSED_def includes_str_def sublist_code(3) Let_def)

lemma sendEmailViaEWS_down:
  "snd (sendEmailViaEWS exchange_config down_world (ewsPayload exchange_config hello)) =
     Inl (classifySendFailure ECONNREFUSED)"
  by (simp add: sendEmailViaEWS_def resolveConfig_def createExchangeService_def buildMessage_def
        exchange_config_def relay_config_def down_world_def calm_world_def ewsPayload_def hello_def
        truthy_string_def or_else_def Let_def)

lemma has_content_hello: "has_content hello"
  by (simp add: has_content_def hello_def truthy_string_def)

theorem sendMail_wraps_adapter_errors_witness:
  "snd (sendMail relay_config down_world hello) =
     Inl (Thrown MailSendError ''Failed to send email via SMTP''
           (Some (Thrown SMTPSendError ''Failed to send email via SMTP'' (Some ECONNREFUSED))))
   \<and> snd (sendMail exchange_config down_world hello) =
       Inl (Thrown MailSendError ''Failed to send email via Exchange''
             (Some (Thrown EWSConnectionError
                     ''Cannot reach Exchange server. Please check the URL and network connectivity.''
                     (Some ECONNREFUSED))))"
proof -
  have smtp: "selectedProvider relay_config hello = ''smtp''"
    by (simp add: selectedProvider_def nullish_def hello_def relay_config_def)
  have ews: "selectedProvider exchange_config hello = ''ews''"
    by (simp add: selectedProvider_def nullish_def hello_def exchange_config_def)
  have x: "exchange exchange_config \<noteq> None"
    by (simp add: exchange_config_def)
  show ?thesis
    using sendMail_wraps_adapter_errors
            [of relay_config down_world hello
                "Thrown MailSendError ''Failed to send email via SMTP''
                   (Some (Thrown SMTPSendError ''Failed to send email via SMTP''
                            (Some ECONNREFUSED)))"
                "Thrown SMTPSendError ''Failed to send email via SMTP'' (Some ECONNREFUSED)"]
          sendMail_wraps_adapter_errors
            [of exchange_config down_world hello
                "Thrown MailSendError ''Failed to send email via Exchange''
                   (Some (classifySendFailure ECONNREFUSED))"
                "classifySendFailure ECONNREFUSED"]
    by (simp add: has_content_hello smtp ews x sendEmailViaSmtp_down sendEmailViaEWS_down
          classifySendFailure_ECONNREFUSED)
qed

text \<open>
  C6. Subject prefixing on the Exchange path is idempotent: "Hello" becomes
  "[Djazairmed] Hello", a subject that already starts with "[Djazairmed]" is left as it
  is, and prefixing twice is prefixing once. The prefixed subject is the one the Exchange
  adapter receives and the one of every message that \<open>sendMail\<close> submits.
\<close>

theorem prefixedSubject_idempotent:
  "prefixedSubject ''Hello'' = ''[Djazairmed] Hello''
   \<and> (startsWith s ''[Djazairmed]'' \<longrightarrow> prefixedSubject s = s)
   \<and> prefixedSubject (prefixedSubject s) = prefixedSubject s
   \<and> (has_content inp \<and> selectedProvider cfg inp = ''ews'' \<and> exchange cfg \<noteq> None \<longrightarrow>
        (\<exists>q. adapter_calls (fst (sendMail cfg w inp)) = [EwsAdapter q]
             \<and> subject q = prefixedSubject (subject inp)))
   \<and> (SendAndSaveCopy em \<in> set (fst (sendMail cfg w inp)) \<longrightarrow>
        Subject em = prefixedSubject (subject inp))"
proof (intro conjI impI)
  show "prefixedSubject ''Hello'' = ''[Djazairmed] Hello''"
    by (simp add: prefixedSubject_def startsWith_def DEFAULT_SUBJECT_PREFIX_def)
  show "prefixedSubject s = s" if "startsWith s ''[Djazairmed]''"
    using that by (simp add: prefixedSubject_def DEFAULT_SUBJECT_PREFIX_def)
  show "prefixedSubject (prefixedSubject s) = prefixedSubject s"
    by (rule prefixedSubject_idem)
  show "\<exists>q. adapter_calls (fst (sendMail cfg w inp)) = [EwsAdapter q]
             \<and> subject q = prefixedSubject (subject inp)"
    if "has_content inp \<and> selectedProvider cfg inp = ''ews'' \<and> exchange cfg \<noteq> None"
  proof -
    have "adapter_calls (fst (sendMail cfg w inp)) = [EwsAdapter (ewsPayload cfg inp)]"
      using that by (simp add: adapter_calls_sendMail)
    moreover have "subject (ewsPayload cfg inp) = prefixedSubject (subject inp)"
      by (simp add: ewsPayload_def)
    ultimately show ?thesis by blast
  qed
  show "Subject em = prefixedSubject (subject inp)"
    if "SendAndSaveCopy em \<in> set (fst (sendMail cfg w inp))"
    using that by (rule sendMail_Subject)
qed

lemma sendMail_exchange_hello:
  "fst (sendMail exchange_config calm_world hello) =
     [Log Info ''Sending email'',
      EwsAdapter (ewsPayload exchange_config hello),
      SendAndSaveCopy
        \<lparr>From_name = ''Mail Service'', From_address = ''svc@example.com'',
         ToRecipients = [''a@b.com''], Subject = ''[Djazairmed] Hello'',
         Body = (Text, ''hey'')\<rparr>,
      Console Info ''[ews-service] Email sent successfully'',
      Log Info ''Mail dispatched via Exchange'']"
  by (simp add: sendMail_def selectedProvider_def nullish_def
        sendEmailViaEWS_def resolveConfig_def createExchangeService_def buildMessage_def
        exchange_config_def relay_config_def calm_world_def ewsPayload_def hello_def
        prefixedSubject_def startsWith_def DEFAULT_SUBJECT_PREFIX_def
        truthy_string_def or_else_def Let_def)

theorem prefixedSubject_idempotent_witness:
  "startsWith ''[Djazairmed] Hello'' ''[Djazairmed]''
   \<and> prefixedSubject ''[Djazairmed] Hello'' = ''[Djazairmed] Hello''
   \<and> SendAndSaveCopy
        \<lparr>From_name = ''Mail Service'', From_address = ''svc@example.com'',
         ToRecipients = [''a@b.com''], Subject = ''[Djazairmed] Hello'',
         Body = (Text, ''hey'')\<rparr> \<in> set (fst (sendMail exchange_config calm_world hello))
   \<and> prefixedSubject (subject hello) = ''[Djazairmed] Hello''
   \<and> has_content hello \<and> selectedProvider exchange_config hello = ''ews''
   \<and> exchange exchange_config \<noteq> None
   \<and> (\<exists>q. adapter_calls (fst (sendMail exchange_config calm_world hello)) = [EwsAdapter q]
          \<and> subject q = ''[Djazairmed] Hello'')"
proof -
  have ews: "selectedProvider exchange_config hello = ''ews''"
    by (simp add: selectedProvider_def nullish_def hello_def exchange_config_def)
  have x: "exchange exchange_config \<noteq> None"
    by (simp add: exchange_config_def)
  have p: "startsWith ''[Djazairmed] Hello'' ''[Djazairmed]''"
    by (simp add: startsWith_def)
  have m: "SendAndSaveCopy
        \<lparr>From_name = ''Mail Service'', From_address = ''svc@example.com'',
         ToRecipients = [''a@b.com''], Subject = ''[Djazairmed] Hello'',
         Body = (Text, ''hey'')\<rparr> \<in> set (fst (sendMail exchange_config calm_world hello))"
    by (simp add: sendMail_exchange_hello)
  note t = prefixedSubject_idempotent [of "''[Djazairmed] Hello''" hello exchange_config calm_world
        "\<lparr>From_name = ''Mail Service'', From_address = ''svc@example.com'',
         ToRecipients = [''a@b.com''], Subject = ''[Djazairmed] Hello'',
         Body = (Text, ''hey'')\<rparr>"]
  from t p have a: "prefixedSubject ''[Djazairmed] Hello'' = ''[Djazairmed] Hello''"
    by blast
  from t m have b: "prefixedSubject (subject hello) = ''[Djazairmed] Hello''"
    by simp
  from t has_content_hello ews x
  have "\<exists>q. adapter_calls (fst (sendMail exchange_config calm_world hello)) = [EwsAdapter q]
          \<and> subject q = prefixedSubject (subject hello)"
    by blast
  then have c: "\<exists>q. adapter_calls (fst (sendMail exchange_config calm_world hello)) = [EwsAdapter q]
          \<and> subject q = ''[Djazairmed] Hello''"
    by (simp only: b)
  show ?thesis
    by (intro conjI) (rule p, rule a, rule m, rule b, rule has_content_hello, rule ews, rule x, rule c)
qed

text \<open>
  C7. \<open>verifyMailTransporter\<close> always attempts the relay verification and goes on when it
  fails, after logging the failure; it looks at the presence of the Exchange configuration
  without any call to the Exchange server; and it throws exactly when the default provider
  is \<open>"smtp"\<close> and the relay verification failed, or the default provider is \<open>"ews"\<close> and
  the Exchange configuration is absent. A non-default provider that is misconfigured never
  makes it throw.
\<close>

theorem verifyMailTransporter_fails_iff:
  "(isl (snd (verifyMailTransporter cfg w)) \<longleftrightarrow>
      (defaultProvider cfg = ''smtp'' \<and> transporter_verify w \<noteq> None)
      \<or> (defaultProvider cfg = ''ews'' \<and> exchange cfg = None))
   \<and> outbound_calls (fst (verifyMailTransporter cfg w)) = [TransporterVerify]
   \<and> adapter_calls (fst (verifyMailTransporter cfg w)) = []
   \<and> take 3 (fst (verifyMailTransporter cfg w)) =
       [TransporterVerify,
        if transporter_verify w = None then Log Info ''SMTP transporter verified''
        else Log Err ''SMTP transporter verification failed'',
        if exchange cfg = None then
          Log Info ''Exchange configuration not set, skipping EWS verification''
        else Log Info ''Exchange configuration verified'']
   \<and> (defaultProvider cfg = ''ews'' \<and> exchange cfg \<noteq> None \<longrightarrow>
        snd (verifyMailTransporter cfg w) = Inr ())
   \<and> (defaultProvider cfg = ''smtp'' \<and> transporter_verify w = None \<longrightarrow>
        snd (verifyMailTransporter cfg w) = Inr ())"
proof (intro conjI)
  show "isl (snd (verifyMailTransporter cfg w)) \<longleftrightarrow>
      (defaultProvider cfg = ''smtp'' \<and> transporter_verify w \<noteq> None)
      \<or> (defaultProvider cfg = ''ews'' \<and> exchange cfg = None)"
    by (auto simp add: verifyMailTransporter_def verifySmtpTransporter_def is_SMTPConfigError_def
          Let_def split: option.splits)
  show "outbound_calls (fst (verifyMailTransporter cfg w)) = [TransporterVerify]"
    by (auto simp add: verifyMailTransporter_def verifySmtpTransporter_def is_SMTPConfigError_def
          outbound_calls_simps Let_def split: option.splits)
  show "adapter_calls (fst (verifyMailTransporter cfg w)) = []"
    by (auto simp add: verifyMailTransporter_def verifySmtpTransporter_def is_SMTPConfigError_def
          adapter_calls_simps Let_def split: option.splits)
  show "take 3 (fst (verifyMailTransporter cfg w)) =
       [TransporterVerify,
        if transporter_verify w = None then Log Info ''SMTP transporter verified''
        else Log Err ''SMTP transporter verification failed'',
        if exchange cfg = None then
          Log Info ''Exchange configuration not set, skipping EWS verification''
        else Log Info ''Exchange configuration verified'']"
    by (auto simp add: verifyMailTransporter_def verifySmtpTransporter_def is_SMTPConfigError_def
          Let_def split: option.splits)
  show "defaultProvider cfg = ''ews'' \<and> exchange cfg \<noteq> None \<longrightarrow>
        snd (verifyMailTransporter cfg w) = Inr ()"
    by (auto simp add: verifyMailTransporter_def verifySmtpTransporter_def is_SMTPConfigError_def
          Let_def split: option.splits)
  show "defaultProvider cfg = ''smtp'' \<and> transporter_verify w = None \<longrightarrow>
        snd (verifyMailTransporter cfg w) = Inr ()"
    by (auto simp add: verifyMailTransporter_def verifySmtpTransporter_def is_SMTPConfigError_def
          Let_def split: option.splits)
qed

theorem verifyMailTransporter_fails_iff_witness:
  "defaultProvider exchange_config = ''ews'' \<and> exchange exchange_config \<noteq> None
   \<and> transporter_verify down_world \<noteq> None
   \<and> snd (verifyMailTransporter exchange_config down_world) = Inr ()
   \<and> defaultProvider relay_config = ''smtp'' \<and> transporter_verify calm_world = None
   \<and> exchange relay_config = None
   \<and> snd (verifyMailTransporter relay_config calm_world) = Inr ()
   \<and> isl (snd (verifyMailTransporter relay_config down_world))"
  using verifyMailTransporter_fails_iff [of exchange_config down_world]
        verifyMailTransporter_fails_iff [of relay_config calm_world]
        verifyMailTransporter_fails_iff [of relay_config down_world]
  by (simp add: exchange_config_def relay_config_def down_world_def calm_world_def)

text \<open>
  C8. When no connection URL is supplied, and the settings parse and the credentials are
  complete, \<open>parseMailTransport\<close> builds a host transport whose port is the one given, or
  465 if \<open>secure\<close> is explicitly true and 587 otherwise; whose \<open>secure\<close> is the one given, or
  whether the port is 465; and whose \<open>requireTLS\<close> is the one given, or the negation of
  \<open>secure\<close>. Given only the port 465, \<open>secure\<close> is true and \<open>requireTLS\<close> false; given
  nothing, the port is 587, \<open>secure\<close> is false and \<open>requireTLS\<close> is true.
\<close>

theorem parseMailTransport_defaults:
  "(optional e ''SMTP_URL'' = None
      \<and> optionalInteger rt e ''SMTP_PORT'' = Inr smtpPort
      \<and> optionalBoolean e ''SMTP_SECURE'' = Inr smtpSecure
      \<and> optionalBoolean e ''SMTP_REQUIRE_TLS'' = Inr smtpRequireTLS
      \<and> ((optional e ''SMTP_USER'' = None \<and> optional e ''GMAIL_USER'' = None)
           \<or> optional e ''SMTP_PASSWORD'' \<noteq> None \<or> optional e ''GMAIL_APP_PASSWORD'' \<noteq> None)
    \<longrightarrow>
      (\<exists>au. parseMailTransport rt e =
         (let prt = (case smtpPort of
                       Some n \<Rightarrow> n
                     | None \<Rightarrow> if smtpSecure = Some True then 465 else 587);
              sec = (case smtpSecure of Some b \<Rightarrow> b | None \<Rightarrow> prt = 465);
              rtls = (case smtpRequireTLS of Some b \<Rightarrow> b | None \<Rightarrow> \<not> sec)
          in Inr (SmtpTransport (nullish (optional e ''SMTP_HOST'') ''smtp.gmail.com'')
                    prt sec (Some rtls) au, au))))
   \<and> (Number_integer rt ''465'' = Some 465 \<longrightarrow>
        parseMailTransport rt [''SMTP_PORT'' \<mapsto> ''465''] =
          Inr (SmtpTransport ''smtp.gmail.com'' 465 True (Some False) None, None))
   \<and> parseMailTransport rt Map.empty =
        Inr (SmtpTransport ''smtp.gmail.com'' 587 False (Some True) None, None)"
proof (intro conjI impI)
  assume "optional e ''SMTP_URL'' = None
      \<and> optionalInteger rt e ''SMTP_PORT'' = Inr smtpPort
      \<and> optionalBoolean e ''SMTP_SECURE'' = Inr smtpSecure
      \<and> optionalBoolean e ''SMTP_REQUIRE_TLS'' = Inr smtpRequireTLS
      \<and> ((optional e ''SMTP_USER'' = None \<and> optional e ''GMAIL_USER'' = None)
           \<or> optional e ''SMTP_PASSWORD'' \<noteq> None \<or> optional e ''GMAIL_APP_PASSWORD'' \<noteq> None)"
  then show "\<exists>au. parseMailTransport rt e =
         (let prt = (case smtpPort of
                       Some n \<Rightarrow> n
                     | None \<Rightarrow> if smtpSecure = Some True then 465 else 587);
              sec = (case smtpSecure of Some b \<Rightarrow> b | None \<Rightarrow> prt = 465);
              rtls = (case smtpRequireTLS of Some b \<Rightarrow> b | None \<Rightarrow> \<not> sec)
          in Inr (SmtpTransport (nullish (optional e ''SMTP_HOST'') ''smtp.gmail.com'')
                    prt sec (Some rtls) au, au))"
    by (auto simp add: parseMailTransport_def nullish_def Let_def split: option.splits)
next
  assume "Number_integer rt ''465'' = Some 465"
  then show "parseMailTransport rt [''SMTP_PORT'' \<mapsto> ''465''] =
          Inr (SmtpTransport ''smtp.gmail.com'' 465 True (Some False) None, None)"
    by (simp add: parseMailTransport_def optional_def optionalInteger_def optionalBoolean_def
          nullish_def trim_def is_white_space_def)
next
  show "parseMailTransport rt Map.empty =
        Inr (SmtpTransport ''smtp.gmail.com'' 587 False (Some True) None, None)"
    by (simp add: parseMailTransport_def optional_def optionalInteger_def optionalBoolean_def
          nullish_def)
qed

lemma relay_env_settings:
  "optional relay_env ''SMTP_URL'' = None"
  "optionalInteger plain_runtime relay_env ''SMTP_PORT'' = Inr (Some 465)"
  "optionalBoolean relay_env ''SMTP_SECURE'' = Inr None"
  "optionalBoolean relay_env ''SMTP_REQUIRE_TLS'' = Inr None"
  "optional relay_env ''SMTP_PASSWORD'' = Some ''pw''"
  "optional relay_env ''SMTP_HOST'' = None"
  "Number_integer plain_runtime ''465'' = Some 465"
  by (simp_all add: relay_env_def plain_runtime_def optional_def optionalInteger_def
        optionalBoolean_def trim_def is_white_space_def digit_value_def Let_def)

theorem parseMailTransport_defaults_witness:
  "(\<exists>au. parseMailTransport plain_runtime relay_env =
           Inr (SmtpTransport ''smtp.gmail.com'' 465 True (Some False) au, au))
   \<and> parseMailTransport plain_runtime [''SMTP_PORT'' \<mapsto> ''465''] =
       Inr (SmtpTransport ''smtp.gmail.com'' 465 True (Some False) None, None)"
  using parseMailTransport_defaults [of relay_env plain_runtime "Some 465" None None]
  by (simp add: relay_env_settings nullish_def)

text \<open>
  C9. The resolved default provider is a function of the explicit setting and of the
  presence of the Exchange configuration alone: an explicit setting wins whether or not the
  Exchange configuration is present; with no explicit setting the default is \<open>"ews"\<close> if the
  Exchange configuration is present and \<open>"smtp"\<close> otherwise.
\<close>

theorem resolveDefaultProvider_cases:
  "resolveDefaultProvider (Some p) exch = p
   \<and> resolveDefaultProvider None (Some x) = ''ews''
   \<and> resolveDefaultProvider None None = ''smtp''"
  by (simp add: resolveDefaultProvider_def)

text \<open>
  C10. In every configuration that \<open>mailConfig\<close> resolves the sender's display name is a
  non-empty string, "Mail Service" whenever \<open>MAIL_FROM_NAME\<close> is absent or blank; hence
  \<open>sendEmailViaSmtp\<close> always hands the transporter a from-header of the form
  "name <address>", and never the bare address.
\<close>

theorem mailConfig_sender_name_nonempty:
  assumes "mailConfig rt e = Inr cfg" and "sender scfg = sender cfg"
  shows "name (sender cfg) \<noteq> []
         \<and> ((case e ''MAIL_FROM_NAME'' of None \<Rightarrow> True | Some v \<Rightarrow> trim v = []) \<longrightarrow>
              name (sender cfg) = ''Mail Service'')
         \<and> fromHeader (sender cfg) = name (sender cfg) @ '' <'' @ address (sender cfg) @ ''>''
         \<and> outbound_calls (fst (sendEmailViaSmtp scfg w payload)) =
             [TransporterSendMail (name (sender cfg) @ '' <'' @ address (sender cfg) @ ''>'')
                payload]"
proof -
  have n: "name (sender cfg) \<noteq> []"
    using assms(1) by (rule mailConfig_name_nonempty)
  have b: "name (sender cfg) = ''Mail Service''"
    if "case e ''MAIL_FROM_NAME'' of None \<Rightarrow> True | Some v \<Rightarrow> trim v = []"
    using mailConfig_name [OF assms(1)] optional_blank [of e "''MAIL_FROM_NAME''"] that
    by simp
  have h: "fromHeader (sender cfg) = name (sender cfg) @ '' <'' @ address (sender cfg) @ ''>''"
    using n by (simp add: fromHeader_def)
  have "outbound_calls (fst (sendEmailViaSmtp scfg w payload)) =
          [TransporterSendMail (fromHeader (sender scfg)) payload]"
    by (simp add: sendEmailViaSmtp_def outbound_calls_simps Let_def split: sum.splits)
  with h assms(2) have o: "outbound_calls (fst (sendEmailViaSmtp scfg w payload)) =
             [TransporterSendMail (name (sender cfg) @ '' <'' @ address (sender cfg) @ ''>'')
                payload]"
    by simp
  from n b h o show ?thesis by blast
qed

theorem mailConfig_sender_name_nonempty_witness:
  "relay_env ''MAIL_FROM_NAME'' = Some ''   '' \<and> trim ''   '' = []
   \<and> mailConfig plain_runtime relay_env =
       Inr \<lparr>apiKey = ''k'', sender = \<lparr>name = ''Mail Service'', address = ''a@b.com''\<rparr>,
            transport = SmtpTransport ''smtp.gmail.com'' 465 True (Some False)
                          (Some \<lparr>user = ''a@b.com'', pass = ''pw''\<rparr>),
            timeouts = \<lparr>connection = 10000, greeting = 10000\<rparr>\<rparr>
   \<and> sender relay_config = \<lparr>name = ''Mail Service'', address = ''a@b.com''\<rparr>
   \<and> outbound_calls (fst (sendEmailViaSmtp relay_config calm_world (smtpPayload hello))) =
       [TransporterSendMail ''Mail Service <a@b.com>'' (smtpPayload hello)]"
proof -
  have blank: "relay_env ''MAIL_FROM_NAME'' = Some ''   ''" "trim ''   '' = []"
    by (simp_all add: relay_env_def trim_def is_white_space_def)
  have s: "sender relay_config = \<lparr>name = ''Mail Service'', address = ''a@b.com''\<rparr>"
    by (simp add: relay_config_def)
  have "outbound_calls (fst (sendEmailViaSmtp relay_config calm_world (smtpPayload hello))) =
       [TransporterSendMail ''Mail Service <a@b.com>'' (smtpPayload hello)]"
    using mailConfig_sender_name_nonempty
            [OF relay_env_config, of relay_config calm_world "smtpPayload hello"] s
    by simp
  with blank s relay_env_config show ?thesis by simp
qed

end
